theory Spec2Isabelle
  imports Main "HOL-Library.Sublist"
begin

section \<open>Python values, exceptions and dictionaries\<close>

text \<open>
  The embedding follows \<^verbatim>\<open>backend.py\<close>. A Python \<^verbatim>\<open>str\<close> is a \<^typ>\<open>string\<close>.
  What \<^verbatim>\<open>str.lower()\<close> and \<^verbatim>\<open>str.title()\<close> do depends on the Unicode tables, so the
  functions that call them are defined with the case mapping as a parameter
  (\<open>determine_category_with lower\<close>, \<open>sender_name_with title\<close>, and so on): what is proved
  for every \<open>lower\<close> or \<open>title\<close> holds whatever Python does beyond ASCII. The mappings
  \<open>py_lower\<close> and \<open>py_title\<close> act on the ASCII letters and leave every other character
  alone, which is what Python does on ASCII text, and the source's names
  (\<open>determine_category\<close>, \<open>sender_name\<close>, and so on) are the functions at these mappings.
  Every exception the code can raise is a value of \<open>error\<close>, and a function that can
  raise returns \<open>error + 'a\<close>. The diagnostic \<^verbatim>\<open>print\<close> calls of the two entry points
  are not modelled.
\<close>

datatype error =
    KeyError
  | ValueError
  | IndexError
  | AttributeError
  | TypeError
  | JSONDecodeError
  | RequestException string
  | Exception string

definition and_then :: "error + 'a \<Rightarrow> ('a \<Rightarrow> error + 'b) \<Rightarrow> error + 'b" where
  "and_then m f = (case m of Inl e \<Rightarrow> Inl e | Inr x \<Rightarrow> f x)"

text \<open>
  A value decoded from JSON. A float is kept as its literal text: the code never
  computes with one.
\<close>

datatype json =
    JNull
  | JBool bool
  | JInt int
  | JFloat string
  | JStr string
  | JList "json list"
  | JDict "(string \<times> json) list"

text \<open>
  A \<^verbatim>\<open>dict\<close> keeps its keys in insertion order, so it is an association list.
  \<open>dict_item\<close> is the subscript \<^verbatim>\<open>d[k]\<close>, \<open>dict_get\<close> is \<^verbatim>\<open>d.get(k)\<close>,
  \<open>dict_get_default\<close> is \<^verbatim>\<open>d.get(k, default)\<close> and \<open>dict_set\<close> is \<^verbatim>\<open>d[k] = v\<close>.
\<close>

type_synonym ('k, 'v) dict = "('k \<times> 'v) list"

definition dict_get :: "('k, 'v) dict \<Rightarrow> 'k \<Rightarrow> 'v option" where
  "dict_get d k = map_of d k"

definition dict_get_default :: "('k, 'v) dict \<Rightarrow> 'k \<Rightarrow> 'v \<Rightarrow> 'v" where
  "dict_get_default d k dflt = (case map_of d k of None \<Rightarrow> dflt | Some v \<Rightarrow> v)"

definition dict_item :: "('k, 'v) dict \<Rightarrow> 'k \<Rightarrow> error + 'v" where
  "dict_item d k = (case map_of d k of None \<Rightarrow> Inl KeyError | Some v \<Rightarrow> Inr v)"

fun dict_set :: "('k, 'v) dict \<Rightarrow> 'k \<Rightarrow> 'v \<Rightarrow> ('k, 'v) dict" where
  "dict_set [] k v = [(k, v)]"
| "dict_set ((k', v') # d) k v = (if k' = k then (k, v) # d else (k', v') # dict_set d k v)"

definition dict_keys :: "('k, 'v) dict \<Rightarrow> 'k list" where
  "dict_keys d = map fst d"

definition dict_values :: "('k, 'v) dict \<Rightarrow> 'v list" where
  "dict_values d = map snd d"

section \<open>String operations\<close>

definition ascii_uppercase :: string where
  "ascii_uppercase = ''ABCDEFGHIJKLMNOPQRSTUVWXYZ''"

definition ascii_lowercase :: string where
  "ascii_lowercase = ''abcdefghijklmnopqrstuvwxyz''"

definition lower_char :: "char \<Rightarrow> char" where
  "lower_char c = (case map_of (zip ascii_uppercase ascii_lowercase) c of None \<Rightarrow> c | Some l \<Rightarrow> l)"

definition upper_char :: "char \<Rightarrow> char" where
  "upper_char c = (case map_of (zip ascii_lowercase ascii_uppercase) c of None \<Rightarrow> c | Some u \<Rightarrow> u)"

definition is_cased :: "char \<Rightarrow> bool" where
  "is_cased c = (c \<in> set ascii_uppercase \<or> c \<in> set ascii_lowercase)"

text \<open>\<^verbatim>\<open>s.lower()\<close> on ASCII text.\<close>

definition py_lower :: "string \<Rightarrow> string" where
  "py_lower s = map lower_char s"

text \<open>\<^verbatim>\<open>sub in s\<close> on strings: \<open>sub\<close> occurs in \<open>s\<close> as a contiguous run.\<close>

definition py_in :: "string \<Rightarrow> string \<Rightarrow> bool" where
  "py_in sub s = sublist sub s"

text \<open>\<^verbatim>\<open>s.split(sep)\<close> with a one-character separator: never an empty list.\<close>

fun py_split :: "char \<Rightarrow> string \<Rightarrow> string list" where
  "py_split sep [] = [[]]"
| "py_split sep (c # cs) =
     (if c = sep then [] # py_split sep cs
      else (case py_split sep cs of [] \<Rightarrow> [[c]] | w # ws \<Rightarrow> (c # w) # ws))"

text \<open>The subscript \<^verbatim>\<open>xs[0]\<close>, which raises \<^verbatim>\<open>IndexError\<close> on an empty list.\<close>

definition first_item :: "'a list \<Rightarrow> error + 'a" where
  "first_item xs = (case xs of [] \<Rightarrow> Inl IndexError | x # _ \<Rightarrow> Inr x)"

text \<open>\<^verbatim>\<open>s.replace(old, new)\<close> with one-character \<open>old\<close> and \<open>new\<close>.\<close>

definition py_replace :: "char \<Rightarrow> char \<Rightarrow> string \<Rightarrow> string" where
  "py_replace old new s = map (\<lambda>c. if c = old then new else c) s"

text \<open>
  \<^verbatim>\<open>s.title()\<close> on ASCII text: a cased character that follows a cased one is lowered,
  any other character is raised; the flag is what the character before was.
\<close>

fun title_loop :: "bool \<Rightarrow> string \<Rightarrow> string" where
  "title_loop previous_is_cased [] = []"
| "title_loop previous_is_cased (c # cs) =
     (if previous_is_cased then lower_char c else upper_char c) # title_loop (is_cased c) cs"

definition py_title :: "string \<Rightarrow> string" where
  "py_title s = title_loop False s"

text \<open>\<^verbatim>\<open>s.strip()\<close> on ASCII text: the leading and the trailing whitespace go.\<close>

definition whitespace :: string where
  "whitespace = [CHR 0x09, CHR 0x0A, CHR 0x0B, CHR 0x0C, CHR 0x0D,
                 CHR 0x1C, CHR 0x1D, CHR 0x1E, CHR 0x1F, CHR 0x20]"

definition py_strip :: "string \<Rightarrow> string" where
  "py_strip s =
     rev (dropWhile (\<lambda>c. c \<in> set whitespace) (rev (dropWhile (\<lambda>c. c \<in> set whitespace) s)))"

text \<open>
  \<^verbatim>\<open>s.find(c)\<close> and \<^verbatim>\<open>s.rfind(c)\<close> for a one-character \<open>c\<close>: the index of the first
  and of the last occurrence, \<open>-1\<close> when there is none.
\<close>

fun py_find :: "char \<Rightarrow> string \<Rightarrow> int" where
  "py_find c [] = - 1"
| "py_find c (x # xs) =
     (if x = c then 0 else (let i = py_find c xs in if i = - 1 then - 1 else i + 1))"

fun py_rfind :: "char \<Rightarrow> string \<Rightarrow> int" where
  "py_rfind c [] = - 1"
| "py_rfind c (x # xs) =
     (let i = py_rfind c xs in if i \<noteq> - 1 then i + 1 else if x = c then 0 else - 1)"

text \<open>
  The slice \<^verbatim>\<open>s[start:end]\<close>. The code only slices with \<open>0 \<le> start < end\<close>, where the
  slice is the characters from index \<open>start\<close> up to, not including, index \<open>end\<close>.
\<close>

definition py_slice :: "string \<Rightarrow> int \<Rightarrow> int \<Rightarrow> string" where
  "py_slice s start end = take (nat (end - start)) (drop (nat start) s)"

text \<open>\<^verbatim>\<open>sep.join(parts)\<close>\<close>

fun py_join :: "string \<Rightarrow> string list \<Rightarrow> string" where
  "py_join sep [] = []"
| "py_join sep [p] = p"
| "py_join sep (p # q # ps) = p @ sep @ py_join sep (q # ps)"

text \<open>
  \<^verbatim>\<open>max(xs)\<close> raises \<^verbatim>\<open>ValueError\<close> on an empty sequence; otherwise it walks the
  sequence and replaces the item it holds only by a strictly greater one.
\<close>

fun py_max :: "nat list \<Rightarrow> error + nat" where
  "py_max [] = Inl ValueError"
| "py_max (x # xs) = Inr (foldl (\<lambda>m y. if y > m then y else m) x xs)"

text \<open>
  \<^verbatim>\<open>max(d, key=d.get)\<close>: the keys of \<open>d\<close> in insertion order, each ranked by
  \<^verbatim>\<open>d.get(key)\<close>. Comparing with \<^verbatim>\<open>None\<close> raises \<^verbatim>\<open>TypeError\<close>.
\<close>

fun max_get_loop :: "('k, nat) dict \<Rightarrow> 'k \<Rightarrow> 'k list \<Rightarrow> error + 'k" where
  "max_get_loop d best [] = Inr best"
| "max_get_loop d best (k # ks) =
     (case (dict_get d k, dict_get d best) of
        (Some v, Some m) \<Rightarrow> max_get_loop d (if v > m then k else best) ks
      | _ \<Rightarrow> Inl TypeError)"

definition py_max_get :: "('k, nat) dict \<Rightarrow> error + 'k" where
  "py_max_get d = (case dict_keys d of [] \<Rightarrow> Inl ValueError | k # ks \<Rightarrow> max_get_loop d k ks)"

section \<open>EmailClassifier: the rule-based path\<close>

definition categories :: "(string, string list) dict" where
  "categories =
    [(''technical_support'',
        [''error'', ''bug'', ''not working'', ''broken'', ''issue'', ''problem'', ''unable'',
         ''cannot'', ''can't'', ''reset'', ''password'', ''login'', ''access'']),
     (''billing'',
        [''billing'', ''charge'', ''payment'', ''refund'', ''invoice'', ''cost'', ''price'',
         ''pricing'', ''charged'']),
     (''account'', [''account'', ''verification'', ''verify'', ''blocked'']),
     (''integration'', [''api'', ''integration'', ''crm'', ''third-party'']),
     (''general'', [''help'', ''support'', ''question'', ''query'', ''understand''])]"

text \<open>\<^verbatim>\<open>sum(1 for keyword in keywords if keyword in text)\<close>\<close>

definition keyword_score :: "string \<Rightarrow> string list \<Rightarrow> nat" where
  "keyword_score text keywords = length (filter (\<lambda>keyword. py_in keyword text) keywords)"

text \<open>The loop \<^verbatim>\<open>for category, keywords in categories.items(): scores[category] = score\<close>\<close>

fun score_loop :: "string \<Rightarrow> (string \<times> string list) list \<Rightarrow> (string, nat) dict \<Rightarrow> (string, nat) dict" where
  "score_loop text [] scores = scores"
| "score_loop text ((category, keywords) # rest) scores =
     score_loop text rest (dict_set scores category (keyword_score text keywords))"

definition determine_category_with ::
    "(string \<Rightarrow> string) \<Rightarrow> string \<Rightarrow> string \<Rightarrow> error + string" where
  "determine_category_with lower subject body =
     (let text = lower (subject @ '' '' @ body);
          scores = score_loop text categories []
      in and_then (py_max (dict_values scores))
           (\<lambda>m. if m > 0 then py_max_get scores else Inr ''general''))"

definition determine_category :: "string \<Rightarrow> string \<Rightarrow> error + string" where
  "determine_category subject body = determine_category_with py_lower subject body"

definition high_priority_keywords :: "string list" where
  "high_priority_keywords =
    [''urgent'', ''critical'', ''immediate'', ''emergency'', ''down'', ''outage'',
     ''cannot access'', ''completely inaccessible'', ''servers are down'']"

definition medium_priority_keywords :: "string list" where
  "medium_priority_keywords = [''help'', ''support'', ''issue'', ''problem'', ''error'', ''unable'']"

text \<open>A loop \<^verbatim>\<open>for keyword in keywords: if keyword in text: return ...\<close> returns at the first hit.\<close>

fun any_keyword_in :: "string list \<Rightarrow> string \<Rightarrow> bool" where
  "any_keyword_in [] text = False"
| "any_keyword_in (keyword # keywords) text =
     (if py_in keyword text then True else any_keyword_in keywords text)"

definition determine_priority_with :: "(string \<Rightarrow> string) \<Rightarrow> string \<Rightarrow> string \<Rightarrow> string" where
  "determine_priority_with lower subject body =
     (let text = lower (subject @ '' '' @ body)
      in if any_keyword_in high_priority_keywords text then ''high''
         else if any_keyword_in medium_priority_keywords text then ''medium''
         else ''low'')"

definition determine_priority :: "string \<Rightarrow> string \<Rightarrow> string" where
  "determine_priority subject body = determine_priority_with py_lower subject body"

definition generate_reasoning_with ::
    "(string \<Rightarrow> string) \<Rightarrow> string \<Rightarrow> string \<Rightarrow> string \<Rightarrow> string \<Rightarrow> string" where
  "generate_reasoning_with lower category priority subject body =
     (let text = lower (subject @ '' '' @ body);
          parts1 = (if py_in ''error'' text \<or> py_in ''issue'' text \<or> py_in ''problem'' text
                    then [''Contains technical issue keywords''] else []);
          parts2 = parts1 @ (if py_in ''billing'' text \<or> py_in ''charge'' text \<or> py_in ''payment'' text
                    then [''Contains billing-related terms''] else []);
          parts3 = parts2 @ (if py_in ''account'' text \<or> py_in ''verification'' text \<or> py_in ''login'' text
                    then [''Contains account-related terms''] else []);
          parts4 = parts3 @ (if py_in ''api'' text \<or> py_in ''integration'' text
                    then [''Contains integration-related terms''] else []);
          parts5 = parts4 @ (if priority = ''high'' then [''Contains urgent/critical keywords'']
                    else if priority = ''medium'' then [''Contains support-related keywords'']
                    else []);
          reasoning_parts = (if parts5 = [] then [''General inquiry based on content analysis'']
                    else parts5)
      in ''Classified as '' @ category @ '' with '' @ priority @ '' priority. ''
           @ py_join ''; '' reasoning_parts @ ''.'')"

definition generate_reasoning :: "string \<Rightarrow> string \<Rightarrow> string \<Rightarrow> string \<Rightarrow> string" where
  "generate_reasoning category priority subject body =
     generate_reasoning_with py_lower category priority subject body"

definition classify_rule_based_with ::
    "(string \<Rightarrow> string) \<Rightarrow> string \<Rightarrow> string \<Rightarrow> string \<Rightarrow> error + json" where
  "classify_rule_based_with lower sender subject body =
     and_then (determine_category_with lower subject body)
       (\<lambda>category.
          let priority = determine_priority_with lower subject body;
              reasoning = generate_reasoning_with lower category priority subject body
          in Inr (JDict [(''category'', JStr category),
                         (''priority'', JStr priority),
                         (''reasoning'', JStr reasoning)]))"

definition classify_rule_based :: "string \<Rightarrow> string \<Rightarrow> string \<Rightarrow> error + json" where
  "classify_rule_based sender subject body = classify_rule_based_with py_lower sender subject body"

section \<open>ResponseGenerator: the template path\<close>

text \<open>\<^verbatim>\<open>sender.split('@')[0].replace('.', ' ').title()\<close>\<close>

definition sender_name_with :: "(string \<Rightarrow> string) \<Rightarrow> string \<Rightarrow> error + string" where
  "sender_name_with title sender =
     and_then (first_item (py_split CHR ''@'' sender))
       (\<lambda>local_part. Inr (title (py_replace CHR ''.'' CHR '' '' local_part)))"

definition sender_name :: "string \<Rightarrow> error + string" where
  "sender_name sender = sender_name_with py_title sender"

definition greetings :: "string \<Rightarrow> (string, string) dict" where
  "greetings name =
    [(''professional'', ''Dear '' @ name @ '',''),
     (''friendly'', ''Hi '' @ name @ ''!''),
     (''formal'', ''Dear '' @ name @ '',''),
     (''casual'', ''Hey '' @ name @ '','')]"

definition templates :: "(string, (string, string) dict) dict" where
  "templates =
    [(''technical_support'',
       [(''professional'',
         ''Thank you for reaching out regarding the technical issue you're experiencing. I understand how frustrating this must be. Our technical team will investigate this matter promptly and provide you with a resolution within 24 hours.''),
        (''friendly'',
         ''Thanks for letting us know about this issue! I totally understand how annoying technical problems can be. Our team is on it and we'll get this sorted out for you ASAP.''),
        (''formal'',
         ''We acknowledge receipt of your technical support request. Our engineering team will conduct a thorough investigation and provide you with a comprehensive solution within one business day.''),
        (''casual'',
         ''Got it! Thanks for the heads up about this issue. Our tech team will take a look and get back to you soon.'')]),
     (''billing'',
       [(''professional'',
         ''Thank you for contacting us about your billing inquiry. I will personally review your account and ensure any discrepancies are resolved immediately. You can expect a follow-up within 2 business hours.''),
        (''friendly'',
         ''Thanks for reaching out about your billing question! I'll take a look at your account right away and make sure everything is sorted out for you.''),
        (''formal'',
         ''We have received your billing inquiry and will conduct a comprehensive review of your account. Any necessary adjustments will be processed within 2 business hours.''),
        (''casual'',
         ''Hey! Thanks for the message about billing. I'll check your account and fix any issues right away.'')]),
     (''account'',
       [(''professional'',
         ''Thank you for your account-related inquiry. I will assist you in resolving this matter promptly. Please allow me to review your account details and provide you with the necessary steps to resolve this issue.''),
        (''friendly'',
         ''Thanks for reaching out about your account! I'm here to help you get everything sorted out. Let me look into this for you.''),
        (''formal'',
         ''We acknowledge your account verification request. Our security team will review your account and provide the necessary assistance within 4 business hours.''),
        (''casual'',
         ''Hey! No worries about the account issue - I'll help you get it sorted out quickly.'')]),
     (''integration'',
       [(''professional'',
         ''Thank you for your inquiry about our integration capabilities. I would be happy to provide you with detailed information about our API and CRM integration options. Our technical sales team will contact you within 24 hours.''),
        (''friendly'',
         ''Thanks for asking about our integrations! We have some great API and CRM options that I think you'll love. I'll have our tech team reach out with all the details.''),
        (''formal'',
         ''We appreciate your interest in our integration solutions. Our technical team will provide you with comprehensive documentation and integration options within one business day.''),
        (''casual'',
         ''Cool question about integrations! We've got some solid API options. I'll have the team send over the details soon.'')]),
     (''general'',
       [(''professional'',
         ''Thank you for reaching out to us. I have received your inquiry and will ensure you receive the appropriate assistance. Our team will respond with detailed information within 24 hours.''),
        (''friendly'',
         ''Thanks for getting in touch! I've got your message and will make sure you get the help you need.''),
        (''formal'',
         ''We acknowledge receipt of your inquiry. Our customer service team will provide you with a comprehensive response within one business day.''),
        (''casual'',
         ''Hey! Thanks for reaching out. I'll make sure you get the info you need.'')])]"

definition closings :: "(string, string) dict" where
  "closings =
    [(''professional'', ''Best regards,\<newline>Customer Support Team''),
     (''friendly'', ''Cheers!\<newline>The Support Team''),
     (''formal'', ''Sincerely,\<newline>Customer Service Department''),
     (''casual'', ''Talk soon!\<newline>Support Team'')]"

text \<open>The f-string that lays the response out.\<close>

definition compose_response :: "string \<Rightarrow> string \<Rightarrow> string \<Rightarrow> string" where
  "compose_response greeting content closing =
     greeting @ ''\<newline>\<newline>'' @ content
       @ ''\<newline>\<newline>If you have any additional questions, please don't hesitate to reach out.\<newline>\<newline>''
       @ closing"

text \<open>
  The default of a \<^verbatim>\<open>get\<close> is an argument, so Python evaluates the subscript in it
  before the lookup, whether or not the key is there.
\<close>

definition generate_template_response ::
    "string \<Rightarrow> string \<Rightarrow> string \<Rightarrow> string \<Rightarrow> string \<Rightarrow> error + string" where
  "generate_template_response sender subject body category tone =
     and_then (sender_name sender) (\<lambda>name.
     and_then (dict_item (greetings name) ''professional'') (\<lambda>default_greeting.
     and_then (dict_item templates ''general'') (\<lambda>default_templates.
     and_then (dict_item templates ''general'') (\<lambda>general_templates.
     and_then (dict_item general_templates ''professional'') (\<lambda>default_content.
     and_then (dict_item closings ''professional'') (\<lambda>default_closing.
       let greeting = dict_get_default (greetings name) tone default_greeting;
           content = dict_get_default (dict_get_default templates category default_templates)
                       tone default_content;
           closing = dict_get_default closings tone default_closing
       in Inr (compose_response greeting content closing)))))))"

section \<open>The model-backed path\<close>

text \<open>
  The exchange with the model server is outside the program, so its outcome is an input
  of the model: either \<^verbatim>\<open>requests.post\<close> raised a \<^verbatim>\<open>RequestException\<close>, or it returned
  a response with a status code and a body, for which \<^verbatim>\<open>response.json()\<close> returns a value
  or raises. \<^verbatim>\<open>json.loads\<close> is a parameter \<open>loads\<close> of the functions that call it.
\<close>

datatype http_outcome =
    RequestFailed string
  | Response int "error + json"

text \<open>The handler \<^verbatim>\<open>except requests.exceptions.RequestException as e\<close> of both model calls.\<close>

definition except_request_exception :: "error + 'a \<Rightarrow> error + 'a" where
  "except_request_exception r =
     (case r of
        Inl (RequestException msg) \<Rightarrow> Inl (Exception (''Failed to connect to Ollama: '' @ msg))
      | _ \<Rightarrow> r)"

text \<open>\<^verbatim>\<open>result.get(key, default)\<close>: only a dict has \<^verbatim>\<open>get\<close>.\<close>

definition json_get :: "json \<Rightarrow> string \<Rightarrow> json \<Rightarrow> error + json" where
  "json_get result key dflt =
     (case result of JDict d \<Rightarrow> Inr (dict_get_default d key dflt) | _ \<Rightarrow> Inl AttributeError)"

text \<open>A string method called on a decoded value: only a \<^verbatim>\<open>str\<close> has it.\<close>

definition as_str :: "json \<Rightarrow> error + string" where
  "as_str v = (case v of JStr s \<Rightarrow> Inr s | _ \<Rightarrow> Inl AttributeError)"

text \<open>
  \<^verbatim>\<open>key in classification\<close>: a key of a dict, an element of a list, a substring of a
  string; any other value is not iterable.
\<close>

fun json_contains :: "json \<Rightarrow> string \<Rightarrow> error + bool" where
  "json_contains (JDict d) key = Inr (dict_get d key \<noteq> None)"
| "json_contains (JList xs) key = Inr (List.member xs (JStr key))"
| "json_contains (JStr s) key = Inr (py_in key s)"
| "json_contains _ key = Inl TypeError"

text \<open>\<^verbatim>\<open>all(key in classification for key in keys)\<close> stops at the first missing key.\<close>

fun all_keys_in :: "json \<Rightarrow> string list \<Rightarrow> error + bool" where
  "all_keys_in classification [] = Inr True"
| "all_keys_in classification (key # keys) =
     and_then (json_contains classification key)
       (\<lambda>present. if present then all_keys_in classification keys else Inr False)"

text \<open>
  The inner \<^verbatim>\<open>try\<close> block of \<^verbatim>\<open>_classify_with_llama\<close>: \<open>Some\<close> is its \<^verbatim>\<open>return\<close>,
  \<open>None\<close> is falling out of the block.
\<close>

definition extract_json :: "(string \<Rightarrow> error + json) \<Rightarrow> json \<Rightarrow> error + json option" where
  "extract_json loads response_text =
     and_then (as_str response_text) (\<lambda>text.
       let start_idx = py_find CHR ''{'' text;
           end_idx = py_rfind CHR ''}'' text + 1
       in if start_idx \<noteq> - 1 \<and> end_idx > start_idx
          then and_then (loads (py_slice text start_idx end_idx)) (\<lambda>classification.
               and_then (all_keys_in classification [''category'', ''priority'', ''reasoning''])
                 (\<lambda>valid. if valid then Inr (Some classification) else Inr None))
          else Inr None)"

text \<open>The handler \<^verbatim>\<open>except json.JSONDecodeError: pass\<close>.\<close>

definition except_json_decode_error :: "error + json option \<Rightarrow> error + json option" where
  "except_json_decode_error r = (case r of Inl JSONDecodeError \<Rightarrow> Inr None | _ \<Rightarrow> r)"

definition classify_with_llama ::
    "(string \<Rightarrow> error + json) \<Rightarrow> http_outcome \<Rightarrow> string \<Rightarrow> string \<Rightarrow> string \<Rightarrow> error + json" where
  "classify_with_llama loads http sender subject body =
     except_request_exception
       (case http of
          RequestFailed msg \<Rightarrow> Inl (RequestException msg)
        | Response status_code response_json \<Rightarrow>
            and_then
              (if status_code = 200
               then and_then response_json (\<lambda>result.
                    and_then (json_get result ''response'' (JStr [])) (\<lambda>response_text.
                      except_json_decode_error (extract_json loads response_text)))
               else Inr None)
              (\<lambda>returned. case returned of
                   Some classification \<Rightarrow> Inr classification
                 | None \<Rightarrow> Inl (Exception ''Invalid response from Llama API'')))"

text \<open>\<^verbatim>\<open>except Exception\<close> catches every value of \<open>error\<close>.\<close>

definition classify_email ::
    "(string \<Rightarrow> error + json) \<Rightarrow> http_outcome \<Rightarrow> string \<Rightarrow> string \<Rightarrow> string \<Rightarrow> error + json" where
  "classify_email loads http sender subject body =
     (case classify_with_llama loads http sender subject body of
        Inr classification \<Rightarrow> Inr classification
      | Inl e \<Rightarrow> classify_rule_based sender subject body)"

definition generate_with_llama ::
    "http_outcome \<Rightarrow> string \<Rightarrow> string \<Rightarrow> string \<Rightarrow> string \<Rightarrow> string \<Rightarrow> error + string" where
  "generate_with_llama http sender subject body category tone =
     and_then (sender_name sender) (\<lambda>name.
       except_request_exception
         (case http of
            RequestFailed msg \<Rightarrow> Inl (RequestException msg)
          | Response status_code response_json \<Rightarrow>
              and_then
                (if status_code = 200
                 then and_then response_json (\<lambda>result.
                      and_then (json_get result ''response'' (JStr [])) (\<lambda>raw_text.
                      and_then (as_str raw_text) (\<lambda>unstripped.
                        let response_text = py_strip unstripped
                        in if response_text \<noteq> [] then Inr (Some response_text) else Inr None)))
                 else Inr None)
                (\<lambda>returned. case returned of
                     Some response_text \<Rightarrow> Inr response_text
                   | None \<Rightarrow> Inl (Exception ''Invalid response from Llama API''))))"

definition generate_response ::
    "http_outcome \<Rightarrow> string \<Rightarrow> string \<Rightarrow> string \<Rightarrow> string \<Rightarrow> string \<Rightarrow> error + string" where
  "generate_response http sender subject body category tone =
     (case generate_with_llama http sender subject body category tone of
        Inr response \<Rightarrow> Inr response
      | Inl e \<Rightarrow> generate_template_response sender subject body category tone)"

section \<open>Notions used to state the properties\<close>

text \<open>The number of keywords of a category's table that occur in the text.\<close>

definition category_hits :: "string \<Rightarrow> string \<Rightarrow> nat" where
  "category_hits text category = keyword_score text (dict_get_default categories category [])"

text \<open>No keyword of any category's table occurs in the text.\<close>

definition all_counts_zero :: "string \<Rightarrow> bool" where
  "all_counts_zero text = list_all (\<lambda>category. category_hits text category = 0) (dict_keys categories)"

text \<open>The four tones of the spec.\<close>

definition tones :: "string list" where
  "tones = [''professional'', ''friendly'', ''formal'', ''casual'']"

text \<open>The body paragraph the table holds for a category and a tone, if any.\<close>

definition template_body :: "string \<Rightarrow> string \<Rightarrow> string option" where
  "template_body category tone =
     (case dict_get templates category of None \<Rightarrow> None | Some by_tone \<Rightarrow> dict_get by_tone tone)"

text \<open>A word with its first letter raised and the others lowered.\<close>

definition capitalize_word :: "string \<Rightarrow> string" where
  "capitalize_word w = (case w of [] \<Rightarrow> [] | c # cs \<Rightarrow> upper_char c # map lower_char cs)"


section \<open>Facts about the helpers\<close>

lemma any_keyword_in_iff: "any_keyword_in kws text \<longleftrightarrow> (\<exists>kw\<in>set kws. py_in kw text)"
  by (induction kws) auto

lemma keyword_score_zero_iff: "keyword_score text kws = 0 \<longleftrightarrow> \<not> any_keyword_in kws text"
  by (simp add: keyword_score_def any_keyword_in_iff filter_empty_conv)

lemma foldl_keep_greater: "foldl (\<lambda>m y. if y > m then y else m) (x::nat) xs = Max (set (x # xs))"
proof (induction xs arbitrary: x)
  case Nil
  show ?case by simp
next
  case (Cons y ys)
  have "foldl (\<lambda>m y. if y > m then y else m) x (y # ys) = Max (set (max x y # ys))"
    using Cons.IH [of "if y > x then y else x"] by (simp add: max_def)
  also have "\<dots> = Max (set (x # y # ys))"
    by (cases "ys = []") (simp_all add: max.assoc)
  finally show ?case .
qed

lemma py_max_Cons: "py_max (x # xs) = Inr (Max (set (x # xs)))"
  by (simp only: py_max.simps foldl_keep_greater)

lemma score_loop_categories:
  "score_loop text categories [] = map (\<lambda>c. (c, category_hits text c)) (dict_keys categories)"
  by (simp add: categories_def dict_keys_def category_hits_def dict_get_default_def)

lemma scores_get:
  "\<forall>k\<in>set (dict_keys categories).
     dict_get (map (\<lambda>c. (c, category_hits text c)) (dict_keys categories)) k = Some (category_hits text k)"
  by (simp add: categories_def dict_keys_def dict_get_def)

lemma category_names:
  "dict_keys categories = [''technical_support'', ''billing'', ''account'', ''integration'', ''general'']"
  by (simp add: categories_def dict_keys_def)

lemma py_max_scores:
  "py_max (dict_values (map (\<lambda>c. (c, category_hits text c)) (dict_keys categories)))
     = Inr (Max (set (map (category_hits text) (dict_keys categories))))"
  by (simp only: category_names dict_values_def list.map snd_conv py_max_Cons)

lemma max_positive_iff:
  "0 < Max (set (map (category_hits text) (dict_keys categories))) \<longleftrightarrow> \<not> all_counts_zero text"
proof -
  have "dict_keys categories \<noteq> []" by (simp add: category_names)
  then have "0 < Max (set (map (category_hits text) (dict_keys categories)))
      \<longleftrightarrow> (\<exists>a\<in>set (map (category_hits text) (dict_keys categories)). 0 < a)"
    by (subst Max_gr_iff) simp_all
  then show ?thesis by (auto simp: all_counts_zero_def list_all_iff)
qed

lemma determine_category_with_unfold:
  "determine_category_with lower subject body =
     (if all_counts_zero (lower (subject @ '' '' @ body)) then Inr ''general''
      else py_max_get (map (\<lambda>c. (c, category_hits (lower (subject @ '' '' @ body)) c)) (dict_keys categories)))"
proof -
  let ?text = "lower (subject @ '' '' @ body)"
  let ?scores = "map (\<lambda>c. (c, category_hits ?text c)) (dict_keys categories)"
  have "determine_category_with lower subject body =
      and_then (py_max (dict_values ?scores)) (\<lambda>m. if m > 0 then py_max_get ?scores else Inr ''general'')"
    by (simp only: determine_category_with_def Let_def score_loop_categories)
  also have "\<dots> = (if 0 < Max (set (map (category_hits ?text) (dict_keys categories)))
                   then py_max_get ?scores else Inr ''general'')"
    by (simp only: py_max_scores and_then_def sum.case)
  also have "\<dots> = (if all_counts_zero ?text then Inr ''general'' else py_max_get ?scores)"
    unfolding max_positive_iff by (cases "all_counts_zero ?text") simp_all
  finally show ?thesis .
qed

lemma max_get_loop_first_max:
  assumes "\<forall>k\<in>set (best # ks). dict_get d k = Some (sc k)"
  shows "\<exists>pre r post. best # ks = pre @ r # post \<and> max_get_loop d best ks = Inr r
           \<and> list_all (\<lambda>x. sc x < sc r) pre \<and> list_all (\<lambda>x. sc x \<le> sc r) post"
  using assms
proof (induction ks arbitrary: best)
  case Nil
  have "[best] = [] @ best # []" by simp
  then show ?case by fastforce
next
  case (Cons k ks)
  have loop: "max_get_loop d best (k # ks) = max_get_loop d (if sc k > sc best then k else best) ks"
    using Cons.prems by simp
  show ?case
  proof (cases "sc k > sc best")
    case True
    obtain pre r post where ih: "k # ks = pre @ r # post" "max_get_loop d k ks = Inr r"
        "list_all (\<lambda>x. sc x < sc r) pre" "list_all (\<lambda>x. sc x \<le> sc r) post"
      using Cons.IH [of k] Cons.prems by auto
    have "sc k \<le> sc r"
      using ih(1,3) by (cases pre) (auto simp: less_imp_le)
    with True have "sc best < sc r" by simp
    with ih have "best # k # ks = (best # pre) @ r # post \<and> max_get_loop d best (k # ks) = Inr r
        \<and> list_all (\<lambda>x. sc x < sc r) (best # pre) \<and> list_all (\<lambda>x. sc x \<le> sc r) post"
      using loop True by simp
    then show ?thesis by blast
  next
    case False
    obtain pre r post where ih: "best # ks = pre @ r # post" "max_get_loop d best ks = Inr r"
        "list_all (\<lambda>x. sc x < sc r) pre" "list_all (\<lambda>x. sc x \<le> sc r) post"
      using Cons.IH [of best] Cons.prems by auto
    show ?thesis
    proof (cases pre)
      case Nil
      with ih False have "best # k # ks = [] @ r # (k # post) \<and> max_get_loop d best (k # ks) = Inr r
        \<and> list_all (\<lambda>x. sc x < sc r) [] \<and> list_all (\<lambda>x. sc x \<le> sc r) (k # post)"
        using loop by simp
      then show ?thesis by blast
    next
      case (Cons p pre')
      with ih(1) have p: "p = best" "ks = pre' @ r # post" by simp_all
      have "sc best < sc r" using ih(3) Cons p by simp
      with False have "sc k < sc r" by simp
      with ih Cons p have "best # k # ks = (best # k # pre') @ r # post \<and> max_get_loop d best (k # ks) = Inr r
        \<and> list_all (\<lambda>x. sc x < sc r) (best # k # pre') \<and> list_all (\<lambda>x. sc x \<le> sc r) post"
        using loop False by simp
      then show ?thesis by blast
    qed
  qed
qed

lemma py_max_get_scores:
  "\<exists>pre r post. dict_keys categories = pre @ r # post
     \<and> py_max_get (map (\<lambda>c. (c, category_hits text c)) (dict_keys categories)) = Inr r
     \<and> list_all (\<lambda>x. category_hits text x < category_hits text r) pre
     \<and> list_all (\<lambda>x. category_hits text x \<le> category_hits text r) post"
proof -
  let ?scores = "map (\<lambda>c. (c, category_hits text c)) (dict_keys categories)"
  obtain k ks where keys: "dict_keys categories = k # ks"
    by (simp add: category_names)
  have "dict_keys ?scores = k # ks"
    by (simp add: dict_keys_def comp_def keys [unfolded dict_keys_def])
  then have "py_max_get ?scores = max_get_loop ?scores k ks"
    by (simp add: py_max_get_def)
  moreover have "\<forall>c\<in>set (k # ks). dict_get ?scores c = Some (category_hits text c)"
    using scores_get [of "text"] by (simp only: keys)
  ultimately show ?thesis
    using max_get_loop_first_max [of k ks ?scores "category_hits text"] by (simp only: keys)
qed

lemma determine_category_with_total:
  "\<exists>category. determine_category_with lower subject body = Inr category
     \<and> category \<in> set (dict_keys categories)"
proof (cases "all_counts_zero (lower (subject @ '' '' @ body))")
  case True
  then show ?thesis by (simp add: determine_category_with_unfold category_names)
next
  case False
  obtain pre r post where "dict_keys categories = pre @ r # post"
      "py_max_get (map (\<lambda>c. (c, category_hits (lower (subject @ '' '' @ body)) c)) (dict_keys categories)) = Inr r"
    using py_max_get_scores by blast
  with False show ?thesis by (simp add: determine_category_with_unfold)
qed

lemma determine_category_total:
  "\<exists>category. determine_category subject body = Inr category \<and> category \<in> set (dict_keys categories)"
  unfolding determine_category_def by (rule determine_category_with_total)

lemma classify_rule_based_with_unfold:
  "determine_category_with lower subject body = Inr category \<Longrightarrow>
   classify_rule_based_with lower sender subject body
     = Inr (JDict [(''category'', JStr category),
                   (''priority'', JStr (determine_priority_with lower subject body)),
                   (''reasoning'', JStr (generate_reasoning_with lower category
                                           (determine_priority_with lower subject body) subject body))])"
  by (simp only: classify_rule_based_with_def and_then_def sum.case Let_def)

lemma classify_rule_based_unfold:
  "determine_category subject body = Inr category \<Longrightarrow>
   classify_rule_based sender subject body
     = Inr (JDict [(''category'', JStr category),
                   (''priority'', JStr (determine_priority subject body)),
                   (''reasoning'', JStr (generate_reasoning category (determine_priority subject body) subject body))])"
  unfolding classify_rule_based_def determine_category_def determine_priority_def generate_reasoning_def
  by (rule classify_rule_based_with_unfold)

lemma category_hits_values:
  "map (category_hits text) (dict_keys categories) = map (keyword_score text) (dict_values categories)"
  by (simp add: categories_def dict_keys_def dict_values_def category_hits_def dict_get_default_def)

lemma all_counts_zero_iff:
  "all_counts_zero text \<longleftrightarrow>
     (\<forall>keywords\<in>set (dict_values categories). \<forall>keyword\<in>set keywords. \<not> py_in keyword text)"
proof -
  have "all_counts_zero text \<longleftrightarrow> list_all (\<lambda>n. n = 0) (map (category_hits text) (dict_keys categories))"
    by (simp add: all_counts_zero_def list_all_iff)
  also have "\<dots> \<longleftrightarrow> list_all (\<lambda>n. n = 0) (map (keyword_score text) (dict_values categories))"
    by (simp only: category_hits_values)
  also have "\<dots> \<longleftrightarrow> (\<forall>keywords\<in>set (dict_values categories). \<not> any_keyword_in keywords text)"
    by (simp add: list_all_iff keyword_score_zero_iff)
  finally show ?thesis by (simp add: any_keyword_in_iff)
qed

lemma medium_keywords_are_category_keywords:
  "set medium_priority_keywords \<subseteq> \<Union> (set ` set (dict_values categories))"
  by (simp add: medium_priority_keywords_def categories_def dict_values_def)

lemma no_medium_when_all_counts_zero:
  "all_counts_zero text \<Longrightarrow> \<not> any_keyword_in medium_priority_keywords text"
  using medium_keywords_are_category_keywords
  by (auto simp: all_counts_zero_iff any_keyword_in_iff)

section \<open>The rule-based classifier\<close>

lemma servers_down_category:
  "determine_category ''Servers are down'' ''Our production servers are down, urgent please help''
     = Inr ''general''"
  by code_simp

lemma servers_down_priority:
  "determine_priority ''Servers are down'' ''Our production servers are down, urgent please help''
     = ''high''"
  by code_simp

lemma servers_down_reasoning:
  "generate_reasoning ''general'' ''high''
       ''Servers are down'' ''Our production servers are down, urgent please help''
     = ''Classified as general with high priority. Contains urgent/critical keywords.''"
  by code_simp

text \<open>
  C1, as the code has it: for the email with subject "Servers are down" and body
  "Our production servers are down, urgent please help", the rule-based classifier
  returns priority high and category general, whoever the sender is. The only category
  keyword in the text is "help", which belongs to general.
\<close>

theorem servers_down_is_general_high:
  "classify_rule_based sender ''Servers are down''
       ''Our production servers are down, urgent please help''
     = Inr (JDict [(''category'', JStr ''general''),
                   (''priority'', JStr ''high''),
                   (''reasoning'', JStr ''Classified as general with high priority. Contains urgent/critical keywords.'')])"
  using classify_rule_based_unfold [OF servers_down_category, of sender]
  by (simp only: servers_down_priority servers_down_reasoning)

text \<open>
  C1 as stated fails: the category the rule-based path computes for that email is not
  technical_support.
\<close>

theorem servers_down_not_technical_support:
  "determine_category ''Servers are down'' ''Our production servers are down, urgent please help''
     \<noteq> Inr ''technical_support''"
  by code_simp

lemma determine_priority_values:
  "determine_priority subject body \<in> {''high'', ''medium'', ''low''}"
  by (simp add: determine_priority_def determine_priority_with_def Let_def)

text \<open>
  C2: for every sender, subject and body the rule-based classifier returns a dict whose
  category is one of technical_support, billing, account, integration, general and whose
  priority is one of high, medium, low.
\<close>

theorem classify_rule_based_vocabulary:
  "\<exists>category priority reasoning.
     classify_rule_based sender subject body
       = Inr (JDict [(''category'', JStr category),
                     (''priority'', JStr priority),
                     (''reasoning'', JStr reasoning)])
     \<and> category \<in> {''technical_support'', ''billing'', ''account'', ''integration'', ''general''}
     \<and> priority \<in> {''high'', ''medium'', ''low''}"
proof -
  obtain category where c: "determine_category subject body = Inr category"
      "category \<in> set (dict_keys categories)"
    using determine_category_total [of subject body] by (elim exE conjE)
  from c(2) have cat: "category \<in> {''technical_support'', ''billing'', ''account'', ''integration'', ''general''}"
    by (simp add: category_names)
  have eq: "classify_rule_based sender subject body
      = Inr (JDict [(''category'', JStr category),
                    (''priority'', JStr (determine_priority subject body)),
                    (''reasoning'', JStr (generate_reasoning category (determine_priority subject body) subject body))])"
    using c(1) by (rule classify_rule_based_unfold)
  show ?thesis
    by (rule exI, rule exI, rule exI, intro conjI, rule eq, rule cat, rule determine_priority_values)
qed

text \<open>
  C3: whatever \<^verbatim>\<open>str.lower()\<close> makes of the text, with the keyword-hit count of each
  category taken on the lowercased text, the category chosen is general when every count
  is zero; otherwise it is a category of the table whose count is at least every other
  count and strictly greater than the count of every category declared before it, so
  among the categories with the highest count the one declared first wins. The declared
  order is technical_support, billing, account, integration, general. The result is a
  function of subject and body alone.
\<close>

theorem determine_category_first_highest:
  "dict_keys categories = [''technical_support'', ''billing'', ''account'', ''integration'', ''general'']
   \<and> (if all_counts_zero (lower (subject @ '' '' @ body))
      then determine_category_with lower subject body = Inr ''general''
      else \<exists>pre winner post.
             dict_keys categories = pre @ winner # post
           \<and> determine_category_with lower subject body = Inr winner
           \<and> list_all (\<lambda>earlier. category_hits (lower (subject @ '' '' @ body)) earlier
                                 < category_hits (lower (subject @ '' '' @ body)) winner) pre
           \<and> list_all (\<lambda>later. category_hits (lower (subject @ '' '' @ body)) later
                                 \<le> category_hits (lower (subject @ '' '' @ body)) winner) post)"
proof (cases "all_counts_zero (lower (subject @ '' '' @ body))")
  case True
  then show ?thesis by (simp add: determine_category_with_unfold category_names)
next
  case False
  then have "determine_category_with lower subject body
      = py_max_get (map (\<lambda>c. (c, category_hits (lower (subject @ '' '' @ body)) c)) (dict_keys categories))"
    by (simp only: determine_category_with_unfold if_False)
  with False show ?thesis
    using py_max_get_scores [of "lower (subject @ '' '' @ body)"]
    by (simp only: if_False category_names simp_thms)
qed

lemma tie_not_all_zero: "\<not> all_counts_zero (py_lower (''error'' @ '' '' @ ''account''))"
  by code_simp

lemma tie_counts:
  "category_hits (py_lower (''error'' @ '' '' @ ''account'')) ''technical_support'' = 1"
  "category_hits (py_lower (''error'' @ '' '' @ ''account'')) ''account'' = 1"
  by code_simp+

lemma tie_counts_le:
  "list_all (\<lambda>c. category_hits (py_lower (''error'' @ '' '' @ ''account'')) c \<le> 1) (dict_keys categories)"
  by code_simp

lemma greeting_all_zero: "all_counts_zero (py_lower (''good'' @ '' '' @ ''morning''))"
  by code_simp

text \<open>
  With the ASCII lowercasing, an email with one hit for "error" (technical_support) and
  one for "account" (account): the counts tie and technical_support, declared first, is
  chosen. An email with no keyword at all is general.
\<close>

theorem determine_category_first_highest_witness:
  "\<not> all_counts_zero (py_lower (''error'' @ '' '' @ ''account''))
   \<and> category_hits (py_lower (''error'' @ '' '' @ ''account'')) ''technical_support'' = 1
   \<and> category_hits (py_lower (''error'' @ '' '' @ ''account'')) ''account'' = 1
   \<and> determine_category ''error'' ''account'' = Inr ''technical_support''
   \<and> all_counts_zero (py_lower (''good'' @ '' '' @ ''morning''))
   \<and> determine_category ''good'' ''morning'' = Inr ''general''"
proof -
  let ?t = "py_lower (''error'' @ '' '' @ ''account'')"
  have "\<exists>pre winner post.
          dict_keys categories = pre @ winner # post
        \<and> determine_category ''error'' ''account'' = Inr winner
        \<and> list_all (\<lambda>earlier. category_hits ?t earlier < category_hits ?t winner) pre
        \<and> list_all (\<lambda>later. category_hits ?t later \<le> category_hits ?t winner) post"
    using determine_category_first_highest [of py_lower "''error''" "''account''",
        folded determine_category_def, THEN conjunct2]
      tie_not_all_zero
    by (simp only: if_False)
  then obtain pre winner post where w:
      "dict_keys categories = pre @ winner # post"
      "determine_category ''error'' ''account'' = Inr winner"
      "list_all (\<lambda>earlier. category_hits ?t earlier < category_hits ?t winner) pre"
    by (elim exE conjE)
  have "winner = ''technical_support''"
  proof (cases pre)
    case Nil
    with w(1) show ?thesis by (simp add: category_names)
  next
    case (Cons p pre')
    with w(1) have "p = ''technical_support''" by (simp add: category_names)
    with w(3) Cons have lt: "1 < category_hits ?t winner"
      using tie_counts(1) by simp
    from w(1) have "winner \<in> set (dict_keys categories)" by simp
    with tie_counts_le have "category_hits ?t winner \<le> 1"
      by (simp only: list_all_iff)
    with lt show ?thesis by simp
  qed
  with w(2) have first: "determine_category ''error'' ''account'' = Inr ''technical_support''" by simp
  have zero: "determine_category ''good'' ''morning'' = Inr ''general''"
    using determine_category_first_highest [of py_lower "''good''" "''morning''",
        folded determine_category_def, THEN conjunct2]
      greeting_all_zero
    by (simp only: if_True)
  show ?thesis
    by (intro conjI tie_not_all_zero tie_counts first greeting_all_zero zero)
qed

lemma urgent_is_high:
  "py_in ''urgent'' (py_lower (subject @ '' '' @ body)) \<Longrightarrow> determine_priority subject body = ''high''"
  by (simp add: determine_priority_def determine_priority_with_def Let_def high_priority_keywords_def)

text \<open>
  C4: whenever the lowercased text of subject, a space and body contains "urgent", the
  rule-based classifier returns priority high, whatever category it chooses.
\<close>

theorem urgent_gives_high:
  assumes "py_in ''urgent'' (py_lower (subject @ '' '' @ body))"
  shows "determine_priority subject body = ''high''
       \<and> (\<exists>category reasoning.
            classify_rule_based sender subject body
              = Inr (JDict [(''category'', JStr category),
                            (''priority'', JStr ''high''),
                            (''reasoning'', JStr reasoning)]))"
proof -
  have high: "determine_priority subject body = ''high''"
    using assms by (rule urgent_is_high)
  obtain category where c: "determine_category subject body = Inr category"
    using determine_category_total [of subject body] by (elim exE conjE)
  have "classify_rule_based sender subject body
      = Inr (JDict [(''category'', JStr category),
                    (''priority'', JStr ''high''),
                    (''reasoning'', JStr (generate_reasoning category ''high'' subject body))])"
    using classify_rule_based_unfold [OF c, of sender] by (simp only: high)
  then have "\<exists>category reasoning.
      classify_rule_based sender subject body
        = Inr (JDict [(''category'', JStr category),
                      (''priority'', JStr ''high''),
                      (''reasoning'', JStr reasoning)])"
    by (intro exI)
  with high show ?thesis by (rule conjI)
qed

lemma urgent_refund_text:
  "py_in ''urgent'' (py_lower (''URGENT: refund'' @ '' '' @ ''My payment was charged twice''))"
  by code_simp

text \<open>An email about billing with "URGENT" in capitals in its subject.\<close>

theorem urgent_gives_high_witness:
  "py_in ''urgent'' (py_lower (''URGENT: refund'' @ '' '' @ ''My payment was charged twice''))
   \<and> determine_priority ''URGENT: refund'' ''My payment was charged twice'' = ''high''
   \<and> (\<exists>category reasoning.
        classify_rule_based ''pat@example.com'' ''URGENT: refund'' ''My payment was charged twice''
          = Inr (JDict [(''category'', JStr category),
                        (''priority'', JStr ''high''),
                        (''reasoning'', JStr reasoning)]))"
  using urgent_refund_text
    urgent_gives_high [OF urgent_refund_text, of "''pat@example.com''"]
  by (intro conjI) (simp_all only: simp_thms)

text \<open>
  C9: the rule-based classification does not depend on the sender: two calls that differ
  in the sender alone return the same category, priority and reasoning.
\<close>

theorem classify_rule_based_ignores_sender:
  "classify_rule_based sender1 subject body = classify_rule_based sender2 subject body"
  by (simp only: classify_rule_based_def classify_rule_based_with_def)

lemma all_counts_zero_general:
  "all_counts_zero (lower (subject @ '' '' @ body)) \<Longrightarrow>
   determine_category_with lower subject body = Inr ''general''"
  by (simp only: determine_category_with_unfold if_True)

lemma all_counts_zero_priority:
  assumes "all_counts_zero (lower (subject @ '' '' @ body))"
  shows "determine_priority_with lower subject body
     = (if any_keyword_in high_priority_keywords (lower (subject @ '' '' @ body)) then ''high'' else ''low'')"
  using no_medium_when_all_counts_zero [OF assms]
  by (simp only: determine_priority_with_def Let_def if_False)

text \<open>
  C5, as the code has it: whatever \<^verbatim>\<open>str.lower()\<close> makes of the text, when no keyword of
  any category table occurs in the lowercased text, the rule-based classifier returns
  category general, and priority low unless one of the high-priority triggers occurs in
  the lowercased text, in which case the priority is high. The high-priority triggers are
  not category keywords.
\<close>

theorem no_category_keyword_general:
  assumes "all_counts_zero (lower (subject @ '' '' @ body))"
  shows "\<exists>reasoning.
           classify_rule_based_with lower sender subject body
             = Inr (JDict [(''category'', JStr ''general''),
                           (''priority'', JStr (if any_keyword_in high_priority_keywords
                                                      (lower (subject @ '' '' @ body))
                                                then ''high'' else ''low'')),
                           (''reasoning'', JStr reasoning)])"
proof -
  let ?priority = "determine_priority_with lower subject body"
  have "classify_rule_based_with lower sender subject body
      = Inr (JDict [(''category'', JStr ''general''),
                    (''priority'', JStr ?priority),
                    (''reasoning'', JStr (generate_reasoning_with lower ''general'' ?priority subject body))])"
    using all_counts_zero_general [where lower = lower, OF assms] by (rule classify_rule_based_with_unfold)
  then have "classify_rule_based_with lower sender subject body
      = Inr (JDict [(''category'', JStr ''general''),
                    (''priority'', JStr (if any_keyword_in high_priority_keywords
                                               (lower (subject @ '' '' @ body))
                                         then ''high'' else ''low'')),
                    (''reasoning'', JStr (generate_reasoning_with lower ''general'' ?priority subject body))])"
    by (simp only: all_counts_zero_priority [where lower = lower, OF assms, symmetric])
  then show ?thesis by (intro exI)
qed

lemma hello_all_zero: "all_counts_zero (py_lower (''Hello'' @ '' '' @ ''See you on Monday''))"
  by code_simp

lemma hello_no_trigger:
  "\<not> any_keyword_in high_priority_keywords (py_lower (''Hello'' @ '' '' @ ''See you on Monday''))"
  by code_simp

text \<open>With the ASCII lowercasing, an email with no keyword of either kind: general and low.\<close>

theorem no_category_keyword_general_witness:
  "all_counts_zero (py_lower (''Hello'' @ '' '' @ ''See you on Monday''))
   \<and> (\<exists>reasoning.
        classify_rule_based ''pat@example.com'' ''Hello'' ''See you on Monday''
          = Inr (JDict [(''category'', JStr ''general''),
                        (''priority'', JStr ''low''),
                        (''reasoning'', JStr reasoning)]))"
  using hello_all_zero hello_no_trigger
    no_category_keyword_general [where lower = py_lower and subject = "''Hello''"
      and body = "''See you on Monday''" and sender = "''pat@example.com''",
      OF hello_all_zero, folded classify_rule_based_def]
  by (simp only: if_False simp_thms)

text \<open>
  C5 as stated fails: in the email with subject "urgent" and an empty body no category
  keyword occurs, and the priority is high, not low.
\<close>

theorem urgent_alone_is_high:
  "all_counts_zero (py_lower (''urgent'' @ '' '' @ ''''))
   \<and> classify_rule_based ''pat@example.com'' ''urgent'' ''''
       = Inr (JDict [(''category'', JStr ''general''),
                     (''priority'', JStr ''high''),
                     (''reasoning'', JStr ''Classified as general with high priority. Contains urgent/critical keywords.'')])"
  by code_simp

section \<open>The template response builder\<close>

lemma py_split_first: "\<exists>rest. py_split sep s = takeWhile (\<lambda>c. c \<noteq> sep) s # rest"
proof (induction s)
  case Nil
  show ?case by simp
next
  case (Cons c cs)
  then obtain rest where "py_split sep cs = takeWhile (\<lambda>c. c \<noteq> sep) cs # rest" by (elim exE)
  then show ?case by simp
qed

lemma first_item_split:
  "first_item (py_split sep s) = Inr (takeWhile (\<lambda>c. c \<noteq> sep) s)"
proof -
  obtain rest where "py_split sep s = takeWhile (\<lambda>c. c \<noteq> sep) s # rest"
    using py_split_first [of sep s] by (elim exE)
  then show ?thesis by (simp add: first_item_def)
qed

lemma sender_name_with_eq:
  "sender_name_with title sender
     = Inr (title (py_replace CHR ''.'' CHR '' '' (takeWhile (\<lambda>c. c \<noteq> CHR ''@'') sender)))"
  by (simp only: sender_name_with_def first_item_split and_then_def sum.case)

lemma sender_name_eq:
  "sender_name sender = Inr (py_title (py_replace CHR ''.'' CHR '' '' (takeWhile (\<lambda>c. c \<noteq> CHR ''@'') sender)))"
  unfolding sender_name_def by (rule sender_name_with_eq)

lemma jane_doe: "sender_name ''jane.doe@example.com'' = Inr ''Jane Doe''"
  by code_simp

lemma nouser: "sender_name ''nouser'' = Inr ''Nouser''"
  by code_simp

lemma separators_uncased:
  "\<not> is_cased CHR ''@''" "\<not> is_cased CHR ''.''" "\<not> is_cased CHR '' ''"
  by (simp_all add: is_cased_def ascii_uppercase_def ascii_lowercase_def)

lemma is_cased_not_separator: "is_cased c \<Longrightarrow> c \<noteq> CHR ''@'' \<and> c \<noteq> CHR ''.'' \<and> c \<noteq> CHR '' ''"
  using separators_uncased by (intro conjI notI) (simp_all only:)

lemma space_uncased:
  "lower_char CHR '' '' = CHR '' ''" "upper_char CHR '' '' = CHR '' ''"
  by (simp_all add: lower_char_def upper_char_def ascii_uppercase_def ascii_lowercase_def)

lemma title_loop_space: "title_loop b (CHR '' '' # rest) = CHR '' '' # title_loop False rest"
  by (simp add: space_uncased separators_uncased)

lemma title_loop_cased_tail:
  "list_all is_cased w \<Longrightarrow> title_loop True (w @ rest) = map lower_char w @ title_loop True rest"
  by (induction w) simp_all

lemma title_loop_word:
  "list_all is_cased w \<Longrightarrow> title_loop False (w @ rest) = capitalize_word w @ title_loop (w \<noteq> []) rest"
  by (cases w) (simp_all add: capitalize_word_def title_loop_cased_tail)

lemma replace_word: "list_all is_cased w \<Longrightarrow> py_replace CHR ''.'' CHR '' '' w = w"
proof (induction w)
  case Nil
  show ?case by (simp add: py_replace_def)
next
  case (Cons c cs)
  then have "c \<noteq> CHR ''.''" and "py_replace CHR ''.'' CHR '' '' cs = cs"
    using is_cased_not_separator [of c] by simp_all
  then show ?case by (simp add: py_replace_def)
qed

lemma replace_append:
  "py_replace old new (xs @ ys) = py_replace old new xs @ py_replace old new ys"
  by (simp add: py_replace_def)

lemma title_of_joined:
  "list_all (list_all is_cased) names \<Longrightarrow>
   title_loop False (py_replace CHR ''.'' CHR '' '' (py_join ''.'' names))
     = py_join '' '' (map capitalize_word names)"
proof (induction names rule: induct_list012)
  case 1
  show ?case by (simp add: py_replace_def)
next
  case (2 p)
  then have "list_all is_cased p" by simp
  then show ?case
    using title_loop_word [of p "[]"] by (simp add: replace_word)
next
  case (3 p q ps)
  then have p: "list_all is_cased p" and rest: "list_all (list_all is_cased) (q # ps)"
    by simp_all
  have "py_replace CHR ''.'' CHR '' '' (py_join ''.'' (p # q # ps))
      = p @ CHR '' '' # py_replace CHR ''.'' CHR '' '' (py_join ''.'' (q # ps))"
    by (simp add: replace_append replace_word [OF p]) (simp add: py_replace_def)
  moreover have "title_loop False (p @ CHR '' '' # py_replace CHR ''.'' CHR '' '' (py_join ''.'' (q # ps)))
      = capitalize_word p @ CHR '' '' # title_loop False (py_replace CHR ''.'' CHR '' '' (py_join ''.'' (q # ps)))"
    by (simp only: title_loop_word [OF p] title_loop_space)
  ultimately show ?case
    using "3.IH"(2) [OF rest] by simp
qed

lemma joined_has_no_at:
  "list_all (list_all is_cased) names \<Longrightarrow> CHR ''@'' \<notin> set (py_join ''.'' names)"
proof (induction names rule: induct_list012)
  case 1
  show ?case by simp
next
  case (2 p)
  then show ?case using separators_uncased(1) by (auto simp: list_all_iff)
next
  case (3 p q ps)
  then have "CHR ''@'' \<notin> set (py_join ''.'' (q # ps))" and "CHR ''@'' \<notin> set p"
    using separators_uncased(1) by (auto simp: list_all_iff)
  then show ?case by simp
qed

lemma local_part_of_joined:
  assumes "list_all (list_all is_cased) names"
  shows "takeWhile (\<lambda>c. c \<noteq> CHR ''@'') (py_join ''.'' names @ ''@'' @ domain) = py_join ''.'' names"
proof -
  have "\<forall>c\<in>set (py_join ''.'' names). c \<noteq> CHR ''@''"
    using joined_has_no_at [OF assms] by auto
  then show ?thesis by (simp add: takeWhile_tail)
qed

lemma sender_name_words:
  assumes "list_all (list_all is_cased) names"
  shows "sender_name (py_join ''.'' names @ ''@'' @ domain) = Inr (py_join '' '' (map capitalize_word names))"
  by (simp only: sender_name_eq local_part_of_joined [OF assms] py_title_def title_of_joined [OF assms])

text \<open>
  C8: the display name is the part of the sender before the first "@" (the whole sender
  when it has none), with every "." replaced by a space and then title-cased, whatever
  \<^verbatim>\<open>str.title()\<close> makes of it. On ASCII text title-casing raises a letter that does not
  follow a letter and lowers one that does, so when the part before the "@" is words of
  ASCII letters joined by dots, the name is those words, each capitalised, joined by
  spaces. "jane.doe@example.com" gives "Jane Doe" and "nouser" gives "Nouser".
\<close>

theorem display_name:
  "sender_name_with title sender
     = Inr (title (py_replace CHR ''.'' CHR '' '' (takeWhile (\<lambda>c. c \<noteq> CHR ''@'') sender)))
   \<and> (list_all (list_all is_cased) names \<longrightarrow>
        sender_name (py_join ''.'' names @ ''@'' @ domain)
          = Inr (py_join '' '' (map capitalize_word names)))
   \<and> sender_name ''jane.doe@example.com'' = Inr ''Jane Doe''
   \<and> sender_name ''nouser'' = Inr ''Nouser''"
  by (intro conjI impI sender_name_with_eq sender_name_words jane_doe nouser)

lemma mary_ann_words: "list_all (list_all is_cased) [''mary'', ''ANN'', ''o'']"
  by code_simp

theorem display_name_witness:
  "list_all (list_all is_cased) [''mary'', ''ANN'', ''o'']
   \<and> sender_name (py_join ''.'' [''mary'', ''ANN'', ''o''] @ ''@'' @ ''example.com'')
       = Inr (py_join '' '' (map capitalize_word [''mary'', ''ANN'', ''o'']))
   \<and> py_join ''.'' [''mary'', ''ANN'', ''o''] @ ''@'' @ ''example.com'' = ''mary.ANN.o@example.com''
   \<and> py_join '' '' (map capitalize_word [''mary'', ''ANN'', ''o'']) = ''Mary Ann O''"
proof -
  have "sender_name (py_join ''.'' [''mary'', ''ANN'', ''o''] @ ''@'' @ ''example.com'')
       = Inr (py_join '' '' (map capitalize_word [''mary'', ''ANN'', ''o'']))"
    using display_name [where names = "[''mary'', ''ANN'', ''o'']" and domain = "''example.com''",
        THEN conjunct2, THEN conjunct1] mary_ann_words
    by (rule mp)
  moreover have "py_join ''.'' [''mary'', ''ANN'', ''o''] @ ''@'' @ ''example.com'' = ''mary.ANN.o@example.com''"
    by simp
  moreover have "py_join '' '' (map capitalize_word [''mary'', ''ANN'', ''o'']) = ''Mary Ann O''"
    by code_simp
  ultimately show ?thesis
    using mary_ann_words by (intro conjI)
qed

lemma dict_key_iff: "key \<in> set (dict_keys d) \<longleftrightarrow> map_of d key \<noteq> None"
  using map_of_eq_None_iff [of d key] by (simp add: dict_keys_def)

lemma dict_get_or_default:
  assumes "dict_item d fallback = Inr dflt"
  shows "dict_get d (if key \<in> set (dict_keys d) then key else fallback)
           = Some (dict_get_default d key dflt)"
proof (cases "map_of d key")
  case None
  moreover from assms have "map_of d fallback = Some dflt"
    by (simp add: dict_item_def split: option.splits)
  ultimately show ?thesis
    by (simp add: dict_key_iff dict_get_def dict_get_default_def)
next
  case (Some v)
  then show ?thesis
    by (simp add: dict_key_iff dict_get_def dict_get_default_def)
qed

lemma dict_get_None_iff: "dict_get d key = None \<longleftrightarrow> key \<notin> set (dict_keys d)"
  by (simp add: dict_key_iff dict_get_def)

lemma greetings_keys: "dict_keys (greetings name) = tones"
  by (simp add: greetings_def dict_keys_def tones_def)

lemma closings_keys: "dict_keys closings = tones"
  by (simp add: closings_def dict_keys_def tones_def)

lemma templates_keys:
  "dict_keys templates = [''technical_support'', ''billing'', ''account'', ''integration'', ''general'']"
  by (simp add: templates_def dict_keys_def)

lemma templates_tones: "list_all (\<lambda>by_tone. dict_keys by_tone = tones) (dict_values templates)"
  by (simp add: templates_def dict_values_def dict_keys_def tones_def)

lemma default_items:
  "\<exists>greeting. dict_item (greetings name) ''professional'' = Inr greeting"
  "\<exists>closing. dict_item closings ''professional'' = Inr closing"
  "\<exists>general content. dict_item templates ''general'' = Inr general
                     \<and> dict_item general ''professional'' = Inr content"
  by (simp_all add: dict_item_def greetings_def closings_def templates_def)


lemma dict_item_get: "dict_item d key = Inr v \<Longrightarrow> dict_get d key = Some v"
  by (simp add: dict_item_def dict_get_def split: option.splits)

lemma dict_get_default_cases:
  "dict_get d key = None \<Longrightarrow> dict_get_default d key dflt = dflt"
  "dict_get d key = Some v \<Longrightarrow> dict_get_default d key dflt = v"
  by (simp_all add: dict_get_def dict_get_default_def)

lemma dict_get_in_values: "dict_get d key = Some v \<Longrightarrow> v \<in> set (dict_values d)"
  unfolding dict_get_def dict_values_def
  by (drule map_of_SomeD) force

lemma template_response_parts:
  "\<exists>name greeting content closing.
       sender_name sender = Inr name
     \<and> generate_template_response sender subject body category tone
         = Inr (compose_response greeting content closing)
     \<and> dict_get (greetings name) (if tone \<in> set tones then tone else ''professional'') = Some greeting
     \<and> dict_get closings (if tone \<in> set tones then tone else ''professional'') = Some closing
     \<and> (if template_body (if category \<in> set (dict_keys templates) then category else ''general'') tone = None
        then template_body ''general'' ''professional'' = Some content
        else template_body (if category \<in> set (dict_keys templates) then category else ''general'') tone
               = Some content)
     \<and> ((template_body (if category \<in> set (dict_keys templates) then category else ''general'') tone = None)
          = (tone \<notin> set tones))"
proof -
  let ?c = "if category \<in> set (dict_keys templates) then category else ''general''"
  let ?t = "if tone \<in> set tones then tone else ''professional''"
  obtain name where name: "sender_name sender = Inr name"
    using sender_name_eq by blast
  obtain greeting0 where greeting0: "dict_item (greetings name) ''professional'' = Inr greeting0"
    using default_items(1) by blast
  obtain closing0 where closing0: "dict_item closings ''professional'' = Inr closing0"
    using default_items(2) by blast
  obtain general content0 where general: "dict_item templates ''general'' = Inr general"
      and content0: "dict_item general ''professional'' = Inr content0"
    using default_items(3) by blast
  define by_tone where "by_tone = dict_get_default templates category general"
  define greeting where "greeting = dict_get_default (greetings name) tone greeting0"
  define content where "content = dict_get_default by_tone tone content0"
  define closing where "closing = dict_get_default closings tone closing0"
  have response: "generate_template_response sender subject body category tone
      = Inr (compose_response greeting content closing)"
    by (simp only: generate_template_response_def name greeting0 closing0 general content0
          and_then_def sum.case Let_def greeting_def content_def closing_def by_tone_def)
  have g: "dict_get (greetings name) ?t = Some greeting"
    using dict_get_or_default [OF greeting0, of tone] by (simp only: greetings_keys greeting_def)
  have c: "dict_get closings ?t = Some closing"
    using dict_get_or_default [OF closing0, of tone] by (simp only: closings_keys closing_def)
  have table: "dict_get templates ?c = Some by_tone"
    using dict_get_or_default [OF general, of category] by (simp only: by_tone_def)
  have body: "template_body ?c tone = dict_get by_tone tone"
    by (simp only: template_body_def table option.case)
  have default_body: "template_body ''general'' ''professional'' = Some content0"
    by (simp only: template_body_def dict_item_get [OF general] dict_item_get [OF content0] option.case)
  have selected: "if template_body ?c tone = None
      then template_body ''general'' ''professional'' = Some content
      else template_body ?c tone = Some content"
  proof (cases "dict_get by_tone tone")
    case None
    then show ?thesis
      by (simp add: body default_body content_def dict_get_default_cases(1) [OF None])
  next
    case (Some v)
    then show ?thesis
      by (simp add: body content_def dict_get_default_cases(2) [OF Some])
  qed
  have "by_tone \<in> set (dict_values templates)"
    using table by (rule dict_get_in_values)
  then have "dict_keys by_tone = tones"
    using templates_tones by (simp add: list_all_iff)
  then have missing: "(template_body ?c tone = None) = (tone \<notin> set tones)"
    by (simp only: body dict_get_None_iff)
  show ?thesis
    by (intro exI conjI) (rule name response g c selected missing)+
qed

lemma template_response_total:
  "\<exists>response. generate_template_response sender subject body category tone = Inr response"
  using template_response_parts [of sender subject body category tone] by blast

lemma billing_casual:
  "generate_template_response ''jane.doe@example.com'' ''Invoice'' ''Please refund'' ''billing'' ''casual''
     = Inr (''Hey Jane Doe,\<newline>\<newline>Hey! Thanks for the message about billing. I'll check your account and fix any issues right away.\<newline>\<newline>If you have any additional questions, please don't hesitate to reach out.\<newline>\<newline>Talk soon!\<newline>Support Team'')"
  by code_simp

lemma unknown_category_friendly:
  "generate_template_response ''nouser'' ''Hi'' ''Hi'' ''sales'' ''friendly''
     = Inr (''Hi Nouser!\<newline>\<newline>Thanks for getting in touch! I've got your message and will make sure you get the help you need.\<newline>\<newline>If you have any additional questions, please don't hesitate to reach out.\<newline>\<newline>Cheers!\<newline>The Support Team'')"
  by code_simp

lemma unknown_tone_billing:
  "generate_template_response ''nouser'' ''Hi'' ''Hi'' ''billing'' ''angry''
     = Inr (''Dear Nouser,\<newline>\<newline>Thank you for reaching out to us. I have received your inquiry and will ensure you receive the appropriate assistance. Our team will respond with detailed information within 24 hours.\<newline>\<newline>If you have any additional questions, please don't hesitate to reach out.\<newline>\<newline>Best regards,\<newline>Customer Support Team'')"
  by code_simp

text \<open>
  C7: the greeting and the closing are the entries of their tables for the tone, or for
  "professional" when the tone is none of the four. The body paragraph is looked up for
  the category, or for "general" when the category is not in the table, and the tone;
  when the table has no such entry the body is the one of general and professional. Every
  category of the table has the four tones, so an entry is missing exactly when the tone
  is none of the four.
\<close>

theorem template_selection:
  "\<exists>name greeting content closing.
       sender_name sender = Inr name
     \<and> generate_template_response sender subject body category tone
         = Inr (compose_response greeting content closing)
     \<and> dict_get (greetings name) (if tone \<in> set tones then tone else ''professional'') = Some greeting
     \<and> dict_get closings (if tone \<in> set tones then tone else ''professional'') = Some closing
     \<and> (if template_body (if category \<in> set (dict_keys templates) then category else ''general'') tone = None
        then template_body ''general'' ''professional'' = Some content
        else template_body (if category \<in> set (dict_keys templates) then category else ''general'') tone
               = Some content)
     \<and> ((template_body (if category \<in> set (dict_keys templates) then category else ''general'') tone = None)
          = (tone \<notin> set tones))"
  by (rule template_response_parts)

section \<open>The entry points and the model-backed path\<close>

lemma classify_rule_based_total:
  "\<exists>classification. classify_rule_based sender subject body = Inr classification"
proof -
  obtain category where "determine_category subject body = Inr category"
    using determine_category_total [of subject body] by (elim exE conjE)
  then show ?thesis
    using classify_rule_based_unfold [of subject body category sender] by (intro exI)
qed

lemma classify_email_cases:
  "classify_with_llama loads http sender subject body = Inl e \<Longrightarrow>
     classify_email loads http sender subject body = classify_rule_based sender subject body"
  "classify_with_llama loads http sender subject body = Inr classification \<Longrightarrow>
     classify_email loads http sender subject body = Inr classification"
  by (simp_all add: classify_email_def)

lemma generate_response_cases:
  "generate_with_llama http sender subject body category tone = Inl e \<Longrightarrow>
     generate_response http sender subject body category tone
       = generate_template_response sender subject body category tone"
  "generate_with_llama http sender subject body category tone = Inr response \<Longrightarrow>
     generate_response http sender subject body category tone = Inr response"
  by (simp_all add: generate_response_def)

lemma classify_email_total:
  "\<exists>classification. classify_email loads http sender subject body = Inr classification"
proof (cases "classify_with_llama loads http sender subject body")
  case (Inl e)
  then show ?thesis
    using classify_rule_based_total [of sender subject body] by (simp only: classify_email_cases(1))
next
  case (Inr classification)
  then show ?thesis by (simp only: classify_email_cases(2)) (intro exI, rule refl)
qed

lemma generate_response_total:
  "\<exists>response. generate_response http sender subject body category tone = Inr response"
proof (cases "generate_with_llama http sender subject body category tone")
  case (Inl e)
  then show ?thesis
    using template_response_total [of sender subject body category tone]
    by (simp only: generate_response_cases(1))
next
  case (Inr response)
  then show ?thesis by (simp only: generate_response_cases(2)) (intro exI, rule refl)
qed

text \<open>
  C6: both fallbacks return a value for every string input; both entry points return a
  value, never an exception, whatever the exchange with the model server and
  \<^verbatim>\<open>json.loads\<close> do; when the model call raises, the entry point returns exactly what the
  fallback returns, and when the model call returns, the entry point returns that.
\<close>

theorem model_failure_falls_back:
  "(\<exists>classification. classify_rule_based sender subject body = Inr classification)
   \<and> (\<exists>response. generate_template_response sender subject body category tone = Inr response)
   \<and> (\<exists>classification. classify_email loads http sender subject body = Inr classification)
   \<and> (\<exists>response. generate_response http sender subject body category tone = Inr response)
   \<and> (\<forall>e. classify_with_llama loads http sender subject body = Inl e \<longrightarrow>
          classify_email loads http sender subject body = classify_rule_based sender subject body)
   \<and> (\<forall>e. generate_with_llama http sender subject body category tone = Inl e \<longrightarrow>
          generate_response http sender subject body category tone
            = generate_template_response sender subject body category tone)
   \<and> (\<forall>classification. classify_with_llama loads http sender subject body = Inr classification \<longrightarrow>
          classify_email loads http sender subject body = Inr classification)
   \<and> (\<forall>response. generate_with_llama http sender subject body category tone = Inr response \<longrightarrow>
          generate_response http sender subject body category tone = Inr response)"
  by (intro conjI allI impI classify_rule_based_total template_response_total
        classify_email_total generate_response_total)
     (erule classify_email_cases generate_response_cases)+

lemma refused_classify:
  "classify_with_llama (\<lambda>s. Inl JSONDecodeError) (RequestFailed ''connection refused'') [] [] []
     = Inl (Exception ''Failed to connect to Ollama: connection refused'')"
  by (simp add: classify_with_llama_def except_request_exception_def)

lemma refused_generate:
  "generate_with_llama (RequestFailed ''connection refused'') [] [] [] [] []
     = Inl (Exception ''Failed to connect to Ollama: connection refused'')"
  by code_simp

lemma empty_classification:
  "classify_rule_based [] [] []
     = Inr (JDict [(''category'', JStr ''general''), (''priority'', JStr ''low''),
                   (''reasoning'', JStr ''Classified as general with low priority. General inquiry based on content analysis.'')])"
  by code_simp

lemma empty_response:
  "generate_template_response [] [] [] [] []
     = Inr (''Dear ,\<newline>\<newline>Thank you for reaching out to us. I have received your inquiry and will ensure you receive the appropriate assistance. Our team will respond with detailed information within 24 hours.\<newline>\<newline>If you have any additional questions, please don't hesitate to reach out.\<newline>\<newline>Best regards,\<newline>Customer Support Team'')"
  by code_simp

text \<open>
  The server refuses the connection and every input string is empty: both model calls
  raise, and both entry points return what the fallbacks compute for empty strings.
\<close>

theorem model_failure_falls_back_witness:
  "classify_with_llama (\<lambda>s. Inl JSONDecodeError) (RequestFailed ''connection refused'') [] [] []
     = Inl (Exception ''Failed to connect to Ollama: connection refused'')
   \<and> generate_with_llama (RequestFailed ''connection refused'') [] [] [] [] []
     = Inl (Exception ''Failed to connect to Ollama: connection refused'')
   \<and> classify_email (\<lambda>s. Inl JSONDecodeError) (RequestFailed ''connection refused'') [] [] []
     = Inr (JDict [(''category'', JStr ''general''), (''priority'', JStr ''low''),
                   (''reasoning'', JStr ''Classified as general with low priority. General inquiry based on content analysis.'')])
   \<and> generate_response (RequestFailed ''connection refused'') [] [] [] [] []
     = Inr (''Dear ,\<newline>\<newline>Thank you for reaching out to us. I have received your inquiry and will ensure you receive the appropriate assistance. Our team will respond with detailed information within 24 hours.\<newline>\<newline>If you have any additional questions, please don't hesitate to reach out.\<newline>\<newline>Best regards,\<newline>Customer Support Team'')"
proof -
  note fb = model_failure_falls_back [of "[]" "[]" "[]" "[]" "[]" "\<lambda>s. Inl JSONDecodeError"
      "RequestFailed ''connection refused''"]
  have "classify_email (\<lambda>s. Inl JSONDecodeError) (RequestFailed ''connection refused'') [] [] []
      = classify_rule_based [] [] []"
    using fb [THEN conjunct2, THEN conjunct2, THEN conjunct2, THEN conjunct2, THEN conjunct1,
              THEN spec, THEN mp, OF refused_classify] .
  moreover have "generate_response (RequestFailed ''connection refused'') [] [] [] [] []
      = generate_template_response [] [] [] [] []"
    using fb [THEN conjunct2, THEN conjunct2, THEN conjunct2, THEN conjunct2, THEN conjunct2,
              THEN conjunct1, THEN spec, THEN mp, OF refused_generate] .
  ultimately show ?thesis
    by (simp only: refused_classify refused_generate empty_classification empty_response simp_thms)
qed

lemma py_find_first:
  "c \<notin> set pre \<Longrightarrow> py_find c (pre @ c # rest) = int (length pre)"
  by (induction pre) (auto simp: Let_def)

lemma py_rfind_absent: "c \<notin> set s \<Longrightarrow> py_rfind c s = - 1"
  by (induction s) (auto simp: Let_def)

lemma py_rfind_last:
  "c \<notin> set post \<Longrightarrow> py_rfind c (xs @ c # post) = int (length xs)"
  by (induction xs) (auto simp: Let_def py_rfind_absent)

lemma py_slice_middle:
  "py_slice (pre @ mid @ post) (int (length pre)) (int (length pre) + int (length mid)) = mid"
  by (simp add: py_slice_def)

lemma braces_slice:
  fixes pre inner post :: string
  defines "whole \<equiv> pre @ CHR ''{'' # inner @ CHR ''}'' # post"
  assumes "CHR ''{'' \<notin> set pre" and "CHR ''}'' \<notin> set post"
  shows "py_find CHR ''{'' whole = int (length pre)"
    and "py_rfind CHR ''}'' whole + 1 = int (length pre) + int (length (CHR ''{'' # inner @ [CHR ''}'']))"
    and "py_slice whole (py_find CHR ''{'' whole) (py_rfind CHR ''}'' whole + 1) = CHR ''{'' # inner @ [CHR ''}'']"
proof -
  show f: "py_find CHR ''{'' whole = int (length pre)"
    unfolding whole_def using assms(2) by (rule py_find_first)
  have "whole = (pre @ CHR ''{'' # inner) @ CHR ''}'' # post"
    by (simp add: whole_def)
  then have "py_rfind CHR ''}'' whole = int (length (pre @ CHR ''{'' # inner))"
    using py_rfind_last [OF assms(3), of "pre @ CHR ''{'' # inner"] by simp
  then show r: "py_rfind CHR ''}'' whole + 1 = int (length pre) + int (length (CHR ''{'' # inner @ [CHR ''}'']))"
    by simp
  have "whole = pre @ (CHR ''{'' # inner @ [CHR ''}'']) @ post"
    by (simp add: whole_def)
  then have "py_slice whole (int (length pre)) (int (length pre) + int (length (CHR ''{'' # inner @ [CHR ''}'']))) = CHR ''{'' # inner @ [CHR ''}'']"
    using py_slice_middle [of pre "CHR ''{'' # inner @ [CHR ''}'']" post] by (simp only:)
  then show "py_slice whole (py_find CHR ''{'' whole) (py_rfind CHR ''}'' whole + 1) = CHR ''{'' # inner @ [CHR ''}'']"
    by (simp only: f r)
qed

lemma all_three_keys:
  assumes "dict_get classification ''category'' \<noteq> None"
      "dict_get classification ''priority'' \<noteq> None"
      "dict_get classification ''reasoning'' \<noteq> None"
  shows "all_keys_in (JDict classification) [''category'', ''priority'', ''reasoning''] = Inr True"
  using assms by (simp add: and_then_def)

lemma extract_json_braces:
  assumes "CHR ''{'' \<notin> set pre" and "CHR ''}'' \<notin> set post"
    and "loads (CHR ''{'' # inner @ [CHR ''}'']) = Inr (JDict classification)"
    and "dict_get classification ''category'' \<noteq> None"
      "dict_get classification ''priority'' \<noteq> None"
      "dict_get classification ''reasoning'' \<noteq> None"
  shows "extract_json loads (JStr (pre @ CHR ''{'' # inner @ CHR ''}'' # post)) = Inr (Some (JDict classification))"
proof -
  let ?text = "pre @ CHR ''{'' # inner @ CHR ''}'' # post"
  note b = braces_slice [OF assms(1,2), of inner]
  have guard: "py_find CHR ''{'' ?text \<noteq> - 1 \<and> py_rfind CHR ''}'' ?text + 1 > py_find CHR ''{'' ?text"
    by (simp only: b(1,2)) simp
  show ?thesis
    unfolding extract_json_def as_str_def
    by (simp only: json.case and_then_def sum.case Let_def guard if_True simp_thms b(3) assms(3)
          all_three_keys [OF assms(4-6)])
qed

lemma classify_with_llama_braces:
  assumes "dict_get result ''response'' = Some (JStr (pre @ CHR ''{'' # inner @ CHR ''}'' # post))"
    and "CHR ''{'' \<notin> set pre" and "CHR ''}'' \<notin> set post"
    and "loads (CHR ''{'' # inner @ [CHR ''}'']) = Inr (JDict classification)"
    and "dict_get classification ''category'' \<noteq> None"
      "dict_get classification ''priority'' \<noteq> None"
      "dict_get classification ''reasoning'' \<noteq> None"
  shows "classify_with_llama loads (Response 200 (Inr (JDict result))) sender subject body
           = Inr (JDict classification)"
proof -
  have "json_get (JDict result) ''response'' (JStr [])
      = Inr (JStr (pre @ CHR ''{'' # inner @ CHR ''}'' # post))"
    using assms(1) by (simp add: json_get_def dict_get_def dict_get_default_def)
  then show ?thesis
    unfolding classify_with_llama_def
    by (simp add: and_then_def extract_json_braces [where loads = loads and inner = inner, OF assms(2-7)]
          except_json_decode_error_def except_request_exception_def)
qed

text \<open>
  C10: when the server answers with status 200 and the body decodes to a dict whose
  "response" is a string, and the part of that string from its first opening brace
  through its last closing brace is decoded by \<^verbatim>\<open>json.loads\<close> to a dict that has the
  keys category, priority and reasoning, then \<^verbatim>\<open>classify_email\<close> returns that dict as
  it is. Nothing is asked of the values stored under the three keys.
\<close>

theorem model_classification_returned_verbatim:
  assumes "dict_get result ''response'' = Some (JStr (pre @ CHR ''{'' # inner @ CHR ''}'' # post))"
    and "CHR ''{'' \<notin> set pre" and "CHR ''}'' \<notin> set post"
    and "loads (CHR ''{'' # inner @ [CHR ''}'']) = Inr (JDict classification)"
    and "dict_get classification ''category'' \<noteq> None"
    and "dict_get classification ''priority'' \<noteq> None"
    and "dict_get classification ''reasoning'' \<noteq> None"
  shows "classify_email loads (Response 200 (Inr (JDict result))) sender subject body
           = Inr (JDict classification)"
  using classify_with_llama_braces [where loads = loads and inner = inner, OF assms, of sender subject body]
  by (rule classify_email_cases(2))


text \<open>
  The model answers "Sure: {x} done" and the decoder turns "{x}" into a dict whose
  category is "spam" and whose priority is "whenever": the entry point returns it,
  although neither value belongs to the vocabulary of the rule-based path.
\<close>

theorem model_classification_returned_verbatim_witness:
  "dict_get [(''response'', JStr ''Sure: {x} done'')] ''response''
     = Some (JStr (''Sure: '' @ CHR ''{'' # ''x'' @ CHR ''}'' # '' done''))
   \<and> CHR ''{'' \<notin> set ''Sure: ''
   \<and> CHR ''}'' \<notin> set '' done''
   \<and> (\<lambda>s. if s = ''{x}'' then Inr (JDict [(''category'', JStr ''spam''), (''priority'', JStr ''whenever''), (''reasoning'', JNull)])
            else Inl JSONDecodeError) (CHR ''{'' # ''x'' @ [CHR ''}''])
       = Inr (JDict [(''category'', JStr ''spam''), (''priority'', JStr ''whenever''), (''reasoning'', JNull)])
   \<and> dict_get [(''category'', JStr ''spam''), (''priority'', JStr ''whenever''), (''reasoning'', JNull)] ''category'' \<noteq> None
   \<and> dict_get [(''category'', JStr ''spam''), (''priority'', JStr ''whenever''), (''reasoning'', JNull)] ''priority'' \<noteq> None
   \<and> dict_get [(''category'', JStr ''spam''), (''priority'', JStr ''whenever''), (''reasoning'', JNull)] ''reasoning'' \<noteq> None
   \<and> classify_email
         (\<lambda>s. if s = ''{x}'' then Inr (JDict [(''category'', JStr ''spam''), (''priority'', JStr ''whenever''), (''reasoning'', JNull)])
              else Inl JSONDecodeError)
         (Response 200 (Inr (JDict [(''response'', JStr ''Sure: {x} done'')])))
         ''pat@example.com'' ''Hello'' ''See you on Monday''
       = Inr (JDict [(''category'', JStr ''spam''), (''priority'', JStr ''whenever''), (''reasoning'', JNull)])
   \<and> ''spam'' \<notin> {''technical_support'', ''billing'', ''account'', ''integration'', ''general''}
   \<and> ''whenever'' \<notin> {''high'', ''medium'', ''low''}"
proof -
  let ?cls = "[(''category'', JStr ''spam''), (''priority'', JStr ''whenever''), (''reasoning'', JNull)]"
  let ?loads = "\<lambda>s. if s = ''{x}'' then Inr (JDict ?cls) else Inl JSONDecodeError"
  have h1: "dict_get [(''response'', JStr ''Sure: {x} done'')] ''response''
     = Some (JStr (''Sure: '' @ CHR ''{'' # ''x'' @ CHR ''}'' # '' done''))"
    by (simp add: dict_get_def)
  have h2: "CHR ''{'' \<notin> set ''Sure: ''" by simp
  have h3: "CHR ''}'' \<notin> set '' done''" by simp
  have h4: "?loads (CHR ''{'' # ''x'' @ [CHR ''}'']) = Inr (JDict ?cls)" by simp
  have h5: "dict_get ?cls ''category'' \<noteq> None" by (simp add: dict_get_def)
  have h6: "dict_get ?cls ''priority'' \<noteq> None" by (simp add: dict_get_def)
  have h7: "dict_get ?cls ''reasoning'' \<noteq> None" by (simp add: dict_get_def)
  have returned: "classify_email ?loads
         (Response 200 (Inr (JDict [(''response'', JStr ''Sure: {x} done'')])))
         ''pat@example.com'' ''Hello'' ''See you on Monday'' = Inr (JDict ?cls)"
    by (rule model_classification_returned_verbatim
          [where loads = ?loads and inner = "''x''", OF h1 h2 h3 h4 h5 h6 h7])
  have v1: "''spam'' \<notin> {''technical_support'', ''billing'', ''account'', ''integration'', ''general''}"
    by simp
  have v2: "''whenever'' \<notin> {''high'', ''medium'', ''low''}" by simp
  show ?thesis
    by (intro conjI) (rule h1 h2 h3 h4 h5 h6 h7 returned v1 v2)+
qed

end
